theory Spec2Isabelle
  imports Complex_Main
begin

section \<open>Values of the JavaScript source\<close>

text \<open>
  The screens read fields of JSON objects. A field that may be \<open>null\<close> or
  \<open>undefined\<close> is an \<open>option\<close>. Where the source only stores a number, tests
  it and passes it on, the number is a real number, and a \<open>NaN\<close> that the source
  produces itself (\<open>parseFloat\<close>) is \<open>None\<close>. Where the source computes with
  numbers (the map region), they are the double-precision numbers of the language, with
  their rounding, their infinities and \<open>NaN\<close>. The source tests many fields for
  truthiness: a string is truthy when it is present and not empty, a number when it is
  present and not zero.
\<close>

definition truthy_str :: "string option \<Rightarrow> bool" where
  "truthy_str t = (case t of None \<Rightarrow> False | Some s \<Rightarrow> s \<noteq> [])"

definition truthy_num :: "real option \<Rightarrow> bool" where
  "truthy_num n = (case n of None \<Rightarrow> False | Some x \<Rightarrow> x \<noteq> 0)"

text \<open>\<open>a || b\<close>: the left operand when it is truthy, the right one otherwise.\<close>

definition or_str :: "string option \<Rightarrow> string option \<Rightarrow> string option" where
  "or_str a b = (if truthy_str a then a else b)"

definition or_num :: "real option \<Rightarrow> real option \<Rightarrow> real option" where
  "or_num a b = (if truthy_num a then a else b)"

section \<open>The order as the tracking screen reads it\<close>

record LatLng =
  lat :: real
  lng :: real

record Vehicle =
  vehicle_type :: "string option"
  registration :: "string option"

record RiderInfo =
  name :: "string option"
  phone :: "string option"
  vehicle :: "Vehicle option"

record RiderCurrentLocation =
  current_lat :: "string option"
  current_lng :: "string option"
  current_updated_at :: "string option"

text \<open>
  The fields of the backend's order object that the screens and the order service read.
  \<open>locations_pickup\<close> is \<open>order.locations?.pickup\<close> and
  \<open>timing_estimated_delivery_time\<close> is \<open>order.timing?.estimated_delivery_time\<close>.
\<close>

record Order =
  rider_id :: "string option"
  sample_type :: string
  sample_quantity :: nat
  status :: string
  created_at :: "string option"
  updated_at :: "string option"
  assigned_at :: "string option"
  pickup_started_at :: "string option"
  picked_up_at :: "string option"
  delivered_at :: "string option"
  rider_info :: "RiderInfo option"
  rider_name :: "string option"
  rider_phone :: "string option"
  rider_current_location :: "RiderCurrentLocation option"
  locations_pickup :: "LatLng option"
  locations_delivery :: "LatLng option"
  pickup_location_lat :: "real option"
  pickup_location_lng :: "real option"
  delivery_location_lat :: "real option"
  delivery_location_lng :: "real option"
  timing_estimated_delivery_time :: "string option"
  estimated_delivery_time :: "string option"

text \<open>The envelope of every answer of the API client, and a rejected promise.\<close>

record 'a ApiResponse =
  success :: bool
  message :: string
  data :: "'a option"

datatype js_error = Error string

section \<open>Status vocabulary\<close>

definition ORDER_STATUSES :: "string list" where
  "ORDER_STATUSES =
     [''pending_rider_assignment'', ''assigned'', ''pickup_started'', ''picked_up'',
      ''delivery_started'', ''delivered'', ''cancelled'', ''handover_pending'',
      ''handover_accepted'', ''handover_confirmed'']"

text \<open>The string literals of the type of \<open>RiderStatus.status\<close>.\<close>

definition RiderStatus_status :: "string list" where
  "RiderStatus_status =
     [''pending_rider_assignment'', ''assigned'', ''pickup_started'', ''picked_up'',
      ''delivery_started'', ''delivered'', ''cancelled'']"

section \<open>Timeline of an order (buildTimelineFromOrder)\<close>

text \<open>An entry of the status history that the backend sends with an order.\<close>

record StatusHistoryItem =
  history_status :: string
  previous_status :: "string option"
  changed_by_name :: "string option"
  changed_at :: string
  history_notes :: "string option"

datatype StepStatus = completed | current | pending

record TimelineItem =
  item_id :: string
  title :: string
  subtitle :: string
  time :: string
  item_status :: StepStatus
  orderStatus :: string

text \<open>
  \<open>formatTime\<close>: the label of a timestamp. The argument \<open>toLocaleTimeString\<close> stands
  for \<open>new Date(timestamp).toLocaleTimeString('en-US', ...)\<close>; it is \<open>None\<close> where
  that expression throws, which the source catches.
\<close>

definition formatTime :: "(string \<Rightarrow> string option) \<Rightarrow> string option \<Rightarrow> string" where
  "formatTime toLocaleTimeString timestamp =
     (case timestamp of
        None \<Rightarrow> ''Pending''
      | Some ts \<Rightarrow>
          if ts = [] then ''Pending''
          else (case toLocaleTimeString ts of
                  Some label \<Rightarrow> label
                | None \<Rightarrow> ''Pending''))"

text \<open>Decimal digits of a number, for the template string of the first step.\<close>

fun string_of_nat :: "nat \<Rightarrow> string" where
  "string_of_nat n =
     (if n < 10 then [char_of (48 + n)]
      else string_of_nat (n div 10) @ [char_of (48 + n mod 10)])"

declare string_of_nat.simps [simp del]

definition timelineSteps :: "(string \<Rightarrow> string option) \<Rightarrow> Order \<Rightarrow> TimelineItem list" where
  "timelineSteps fmt order =
     [ \<lparr> item_id = ''1'',
         title = ''Order Created'',
         subtitle = ''Delivery created with ''
           @ string_of_nat (if sample_quantity order \<noteq> 0 then sample_quantity order else 1)
           @ '' '' @ sample_type order @ '' sample(s)'',
         time = formatTime fmt (created_at order),
         item_status = completed,
         orderStatus = ''created'' \<rparr>,
       \<lparr> item_id = ''2'',
         title = ''Rider Assignment'',
         subtitle = (if truthy_str (rider_id order) then ''Rider assigned successfully''
                     else ''Waiting for rider assignment''),
         time = formatTime fmt (assigned_at order),
         item_status = (if truthy_str (assigned_at order) then completed
                        else if status order = ''pending_rider_assignment'' then current
                        else pending),
         orderStatus = ''assigned'' \<rparr>,
       \<lparr> item_id = ''3'',
         title = ''En Route to Pickup'',
         subtitle = ''Rider traveling to collection center'',
         time = formatTime fmt (pickup_started_at order),
         item_status = (if truthy_str (pickup_started_at order) then completed
                        else if status order = ''pickup_started'' then current
                        else pending),
         orderStatus = ''pickup_started'' \<rparr>,
       \<lparr> item_id = ''4'',
         title = ''Samples Collected'',
         subtitle = ''QR code scanned and samples picked up'',
         time = formatTime fmt (picked_up_at order),
         item_status = (if truthy_str (picked_up_at order) then completed
                        else if status order = ''picked_up'' then current
                        else pending),
         orderStatus = ''picked_up'' \<rparr>,
       \<lparr> item_id = ''5'',
         title = ''Delivered to Hospital'',
         subtitle = (if truthy_str (delivered_at order)
                     then ''Successfully delivered to hospital lab''
                     else ''En route to hospital''),
         time = formatTime fmt (delivered_at order),
         item_status = (if truthy_str (delivered_at order) then completed
                        else if status order = ''delivery_started''
                                \<or> status order = ''delivered'' then current
                        else pending),
         orderStatus = ''delivered'' \<rparr> ]"

definition currentOrderStatuses :: "string list" where
  "currentOrderStatuses =
     [''pending_rider_assignment'', ''assigned'', ''pickup_started'', ''picked_up'',
      ''delivery_started'']"

text \<open>The predicate of \<open>timelineSteps.find\<close>: the \<open>switch\<close> on the order's status.\<close>

definition isCurrentStep :: "string \<Rightarrow> TimelineItem \<Rightarrow> bool" where
  "isCurrentStep st step =
     (if st = ''pending_rider_assignment'' then orderStatus step = ''assigned''
      else if st = ''assigned'' then orderStatus step = ''pickup_started''
      else if st = ''pickup_started'' then orderStatus step = ''pickup_started''
      else if st = ''picked_up'' then orderStatus step = ''picked_up''
      else if st = ''delivery_started'' then orderStatus step = ''delivered''
      else False)"

text \<open>
  \<open>find\<close> returns the first step that satisfies the predicate, and the source then
  assigns \<open>'current'\<close> to the status of that very object of the array.
\<close>

fun markCurrent :: "(TimelineItem \<Rightarrow> bool) \<Rightarrow> TimelineItem list \<Rightarrow> TimelineItem list" where
  "markCurrent p [] = []"
| "markCurrent p (step # steps) =
     (if p step then step\<lparr>item_status := current\<rparr> # steps
      else step # markCurrent p steps)"

definition buildTimelineFromOrder ::
  "(string \<Rightarrow> string option) \<Rightarrow> Order \<Rightarrow> StatusHistoryItem list \<Rightarrow> TimelineItem list" where
  "buildTimelineFromOrder fmt order statusHistory =
     (if status order \<in> set currentOrderStatuses
      then markCurrent (isCurrentStep (status order)) (timelineSteps fmt order)
      else timelineSteps fmt order)"

section \<open>The tracking screen's state and loadOrderData\<close>

record LocationCoordinates =
  latitude :: real
  longitude :: real

record LocationState =
  collectionCenter :: LocationCoordinates
  hospital :: LocationCoordinates
  riderLocation :: "LocationCoordinates option"
  isRiderLocationActive :: bool
  routeCoordinates :: "LocationCoordinates list"
  estimatedTimeToPickup :: string
  estimatedTimeToDelivery :: string

record ScreenState =
  orderData :: "Order option"
  isLoading :: bool
  qrData :: "string option"
  timeline :: "TimelineItem list"
  locationState :: LocationState

record OrderDetails =
  od_order :: Order
  status_history :: "StatusHistoryItem list option"

record OrderQR =
  qr_id :: string
  qr_data :: string

text \<open>\<open>a || d\<close> where \<open>d\<close> is always there: the value of \<open>a\<close> when truthy, else \<open>d\<close>.\<close>

definition num_or_default :: "real option \<Rightarrow> real \<Rightarrow> real" where
  "num_or_default a d = (case a of None \<Rightarrow> d | Some x \<Rightarrow> if x \<noteq> 0 then x else d)"

definition str_or_default :: "string option \<Rightarrow> string \<Rightarrow> string" where
  "str_or_default a d = (case a of None \<Rightarrow> d | Some x \<Rightarrow> if x \<noteq> [] then x else d)"

text \<open>The function passed to \<open>setLocationState\<close> by \<open>loadOrderData\<close>.\<close>

definition loadedLocationState :: "Order \<Rightarrow> LocationState \<Rightarrow> LocationState" where
  "loadedLocationState order prev =
     (let pickupLat = or_num (map_option lat (locations_pickup order)) (pickup_location_lat order);
          pickupLng = or_num (map_option lng (locations_pickup order)) (pickup_location_lng order);
          deliveryLat = or_num (map_option lat (locations_delivery order)) (delivery_location_lat order);
          deliveryLng = or_num (map_option lng (locations_delivery order)) (delivery_location_lng order)
      in prev\<lparr>
           collectionCenter :=
             \<lparr> latitude = num_or_default pickupLat (latitude (collectionCenter prev)),
               longitude = num_or_default pickupLng (longitude (collectionCenter prev)) \<rparr>,
           hospital :=
             \<lparr> latitude = num_or_default deliveryLat (latitude (hospital prev)),
               longitude = num_or_default deliveryLng (longitude (hospital prev)) \<rparr>,
           isRiderLocationActive := truthy_str (rider_id order),
           estimatedTimeToDelivery :=
             str_or_default
               (or_str (timing_estimated_delivery_time order) (estimated_delivery_time order))
               ''N/A'' \<rparr>)"

text \<open>
  \<open>loadOrderData\<close> as a function of the state before the call and of what the two
  requests it awaits settle to: \<open>getOrderById\<close>, and \<open>getOrderQR\<close>, which is only
  awaited for an order with a rider. A rejected promise (\<open>Inl\<close>) goes to the
  \<open>catch\<close> block, which shows an alert; \<open>finally\<close> clears the loading flag on
  every path. Fitting the map is no part of the state.
\<close>

definition loadOrderData ::
  "(string \<Rightarrow> string option) \<Rightarrow> ScreenState \<Rightarrow> js_error + OrderDetails ApiResponse
     \<Rightarrow> js_error + OrderQR ApiResponse \<Rightarrow> ScreenState" where
  "loadOrderData fmt st0 orderResponse qrResponse =
     (let st = st0\<lparr>isLoading := True\<rparr> in
      case orderResponse of
        Inl err \<Rightarrow> st\<lparr>isLoading := False\<rparr>
      | Inr resp \<Rightarrow>
          (case data resp of
             None \<Rightarrow> st\<lparr>isLoading := False\<rparr>
           | Some d \<Rightarrow>
               if \<not> success resp then st\<lparr>isLoading := False\<rparr>
               else
                 let order = od_order d;
                     statusHistory = (case status_history d of None \<Rightarrow> [] | Some h \<Rightarrow> h);
                     st1 = st\<lparr> orderData := Some order,
                               locationState := loadedLocationState order (locationState st),
                               timeline := buildTimelineFromOrder fmt order statusHistory \<rparr>
                 in if truthy_str (rider_id order)
                    then (case qrResponse of
                            Inl err \<Rightarrow> st1\<lparr>isLoading := False\<rparr>
                          | Inr qr \<Rightarrow>
                              (case data qr of
                                 None \<Rightarrow> st1\<lparr>isLoading := False\<rparr>
                               | Some q \<Rightarrow>
                                   if success qr
                                   then st1\<lparr>qrData := Some (qr_data q), isLoading := False\<rparr>
                                   else st1\<lparr>isLoading := False\<rparr>))
                    else st1\<lparr>isLoading := False\<rparr>))"

section \<open>The delivery-created screen: pollRiderStatus\<close>

record RiderSummary =
  summary_id :: string
  summary_rider_name :: string
  summary_phone :: string
  summary_vehicle_type :: string
  summary_vehicle_registration :: string

record RiderStatus =
  rider_status :: string
  rider :: "RiderSummary option"
  last_updated :: "string option"

record DeliveryCreatedState =
  riderStatus :: RiderStatus
  isLoadingRider :: bool

definition riderStatusOf :: "Order \<Rightarrow> RiderStatus" where
  "riderStatusOf order =
     \<lparr> rider_status = status order,
       rider =
         (case rider_id order of
            None \<Rightarrow> None
          | Some rid \<Rightarrow>
              if rid = [] then None
              else Some
                \<lparr> summary_id = rid,
                  summary_rider_name =
                    str_or_default (or_str (Option.bind (rider_info order) name) (rider_name order))
                      ''Rider'',
                  summary_phone =
                    str_or_default (or_str (Option.bind (rider_info order) phone) (rider_phone order))
                      [],
                  summary_vehicle_type =
                    str_or_default
                      (Option.bind (Option.bind (rider_info order) vehicle) vehicle_type)
                      ''Vehicle'',
                  summary_vehicle_registration =
                    str_or_default
                      (Option.bind (Option.bind (rider_info order) vehicle) registration)
                      ''N/A'' \<rparr>),
       last_updated = updated_at order \<rparr>"

definition pollRiderStatus ::
  "DeliveryCreatedState \<Rightarrow> js_error + OrderDetails ApiResponse \<Rightarrow> DeliveryCreatedState" where
  "pollRiderStatus st response =
     (case response of
        Inl err \<Rightarrow> st\<lparr>isLoadingRider := False\<rparr>
      | Inr resp \<Rightarrow>
          (case data resp of
             None \<Rightarrow> st
           | Some d \<Rightarrow>
               if success resp
               then st\<lparr>isLoadingRider := False, riderStatus := riderStatusOf (od_order d)\<rparr>
               else st))"

section \<open>Order service: getOrderTracking\<close>

record LocationRow =
  location_lat :: string
  location_lng :: string
  recorded_at :: string

record OperationsDetails =
  ops_order :: "Order option"
  location_tracking :: "LocationRow list option"

text \<open>
  A coordinate of the answer is the result of \<open>parseFloat\<close>, which is \<open>NaN\<close> on
  text that is no number: \<open>None\<close> here.
\<close>

record RiderLocation =
  rider_lat :: "real option"
  rider_lng :: "real option"
  timestamp :: string

record TrackingData =
  rider_location :: "RiderLocation option"
  tracking_rider_current_location :: "LatLng option"
  estimated_arrival :: string
  tracking_status :: string

text \<open>
  \<open>getOrderTracking\<close> as a function of what the request to the operations endpoint
  settles to. \<open>parseFloat\<close> is the JavaScript function of that name and \<open>now\<close> is
  \<open>new Date().toISOString()\<close>. The \<open>catch\<close> block logs and throws the error
  again.
\<close>

definition getOrderTracking ::
  "(string \<Rightarrow> real option) \<Rightarrow> string \<Rightarrow> js_error + OperationsDetails ApiResponse
     \<Rightarrow> js_error + TrackingData ApiResponse" where
  "getOrderTracking parseFloat now response =
     (case response of
        Inl err \<Rightarrow> Inl err
      | Inr resp \<Rightarrow>
          (case Option.bind (data resp) ops_order of
             None \<Rightarrow> Inl (Error ''Order not found'')
           | Some order \<Rightarrow>
               if \<not> success resp then Inl (Error ''Order not found'')
               else
                 let locationTracking =
                       (case Option.bind (data resp) location_tracking of
                          None \<Rightarrow> [] | Some rows \<Rightarrow> rows);
                     latestLocation =
                       (if length locationTracking > 0 then Some (last locationTracking)
                        else None);
                     riderCurrentLat = Option.bind (rider_current_location order) current_lat;
                     riderCurrentLng = Option.bind (rider_current_location order) current_lng
                 in Inr
                   \<lparr> success = True,
                     message = ''Order tracking retrieved successfully'',
                     data = Some
                       \<lparr> rider_location = Some
                           (case latestLocation of
                              Some row \<Rightarrow>
                                \<lparr> rider_lat = parseFloat (location_lat row),
                                  rider_lng = parseFloat (location_lng row),
                                  timestamp = recorded_at row \<rparr>
                            | None \<Rightarrow>
                                if truthy_str riderCurrentLat \<and> truthy_str riderCurrentLng
                                then \<lparr> rider_lat = Option.bind riderCurrentLat parseFloat,
                                       rider_lng = Option.bind riderCurrentLng parseFloat,
                                       timestamp =
                                         str_or_default
                                           (Option.bind (rider_current_location order)
                                              current_updated_at)
                                           now \<rparr>
                                else \<lparr> rider_lat = Some 0, rider_lng = Some 0,
                                       timestamp = now \<rparr>),
                         tracking_rider_current_location = None,
                         estimated_arrival =
                           str_or_default
                             (or_str (timing_estimated_delivery_time order)
                                (estimated_delivery_time order))
                             ''N/A'',
                         tracking_status = status order \<rparr> \<rparr>))"

section \<open>The tracking screen: pollRiderLocation and its timer\<close>

text \<open>
  What \<open>pollRiderLocation\<close> does to the location state once the request it awaits has
  settled. A rejected promise is logged and nothing else.
\<close>

definition pollRiderLocation ::
  "LocationState \<Rightarrow> js_error + TrackingData ApiResponse \<Rightarrow> LocationState" where
  "pollRiderLocation prev trackingResponse =
     (case trackingResponse of
        Inl err \<Rightarrow> prev
      | Inr resp \<Rightarrow>
          (case data resp of
             None \<Rightarrow> prev
           | Some trackingData \<Rightarrow>
               if \<not> success resp then prev
               else
                 let riderLat = or_num (Option.bind (rider_location trackingData) rider_lat)
                                  (map_option lat (tracking_rider_current_location trackingData));
                     riderLng = or_num (Option.bind (rider_location trackingData) rider_lng)
                                  (map_option lng (tracking_rider_current_location trackingData))
                 in (case (riderLat, riderLng) of
                       (Some la, Some lo) \<Rightarrow>
                         if la \<noteq> 0 \<and> lo \<noteq> 0
                         then prev\<lparr>
                                riderLocation := Some \<lparr> latitude = la, longitude = lo \<rparr>,
                                isRiderLocationActive := True,
                                estimatedTimeToDelivery :=
                                  (if estimated_arrival trackingData \<noteq> []
                                   then estimated_arrival trackingData
                                   else estimatedTimeToDelivery prev) \<rparr>
                         else prev
                     | _ \<Rightarrow> prev)))"

text \<open>
  The effect that polls. \<open>setInterval\<close> gives a timer with a period in milliseconds;
  the effect's clean-up calls \<open>clearInterval\<close>. Between the start of a request and its
  settling, other events of the screen may run: \<open>inFlight\<close> counts the requests that
  have started and not settled yet. \<open>timer\<close> is the period of the live timer, \<open>None\<close>
  when there is none.
\<close>

record 's Polling =
  timer :: "nat option"
  inFlight :: nat
  screen :: 's

text \<open>
  What can happen while the effect is in place. \<open>Tick\<close>: the timer fires and calls
  the polling function, which starts a request and awaits it. \<open>Settled r\<close>: a
  request in flight settles to \<open>r\<close> and the rest of the polling function runs on
  it. \<open>Cleanup\<close>: React runs the clean-up of the effect, on unmounting the screen or
  before running the effect again.
\<close>

datatype 'r PollEvent = Tick | Settled 'r | Cleanup

text \<open>Running the effect: set the timer, then call the polling function at once.\<close>

definition startPolling :: "nat \<Rightarrow> 's \<Rightarrow> 's Polling" where
  "startPolling period s = \<lparr> timer = Some period, inFlight = 1, screen = s \<rparr>"

definition pollStep :: "('s \<Rightarrow> 'r \<Rightarrow> 's) \<Rightarrow> 's Polling \<Rightarrow> 'r PollEvent \<Rightarrow> 's Polling" where
  "pollStep settle p ev =
     (case ev of
        Tick \<Rightarrow> (if timer p = None then p else p\<lparr>inFlight := inFlight p + 1\<rparr>)
      | Settled r \<Rightarrow>
          (if inFlight p = 0 then p
           else p\<lparr>inFlight := inFlight p - 1, screen := settle (screen p) r\<rparr>)
      | Cleanup \<Rightarrow> p\<lparr>timer := None\<rparr>)"

definition pollRun :: "('s \<Rightarrow> 'r \<Rightarrow> 's) \<Rightarrow> 's Polling \<Rightarrow> 'r PollEvent list \<Rightarrow> 's Polling" where
  "pollRun settle p evs = foldl (pollStep settle) p evs"

text \<open>
  The effect of the tracking screen returns at once for an order without a rider;
  otherwise it polls the rider's location every 30 seconds.
\<close>

definition riderLocationEffect :: "ScreenState \<Rightarrow> LocationState Polling" where
  "riderLocationEffect st =
     (if \<not> truthy_str (Option.bind (orderData st) rider_id)
      then \<lparr> timer = None, inFlight = 0, screen = locationState st \<rparr>
      else startPolling 30000 (locationState st))"

text \<open>The effect of the delivery-created screen polls the order every 5 seconds.\<close>

definition riderStatusEffect :: "DeliveryCreatedState \<Rightarrow> DeliveryCreatedState Polling" where
  "riderStatusEffect st = startPolling 5000 st"

section \<open>Double-precision numbers\<close>

text \<open>
  A number of the language is a finite double, an infinity or \<open>NaN\<close>. A finite number
  is given by its value, a real number; every result of an operation is rounded to a
  double, and what is proved below of finite numbers holds of every value, a double or
  not. The sign of a zero is left out: it shows only when a number is divided by a zero,
  and a zero here divides as \<open>+0\<close> does.
\<close>

datatype number = Finite real | PosInf | NegInf | NaN

text \<open>
  Rounding to the nearest double, ties to the even significand. \<open>rne\<close> rounds to the
  nearest integer, ties to the even one. With \<open>e\<close> the exponent of a magnitude, that
  is the greatest integer with \<open>2 powr e\<close> at most the magnitude, the doubles next
  to it are the multiples of \<open>2 powr (e - 52)\<close>; below \<open>2 powr (- 1022)\<close> they are
  the multiples of \<open>2 powr (- 1074)\<close>. A magnitude of \<open>2 ^ 1024 - 2 ^ 970\<close> or
  more rounds to an infinity.
\<close>

definition rne :: "real \<Rightarrow> int" where
  "rne y = (let f = \<lfloor>y\<rfloor>; d = y - of_int f
            in if d < 1 / 2 then f
               else if d > 1 / 2 then f + 1
               else if even f then f else f + 1)"

definition fl :: "real \<Rightarrow> number" where
  "fl x = (if x = 0 then Finite 0
           else if \<bar>x\<bar> \<ge> 2 ^ 1024 - 2 ^ 970 then (if x > 0 then PosInf else NegInf)
           else let e = max \<lfloor>log 2 \<bar>x\<bar>\<rfloor> (- 1022);
                    q = 2 powr (of_int e - 52)
                in Finite (of_int (rne (x / q)) * q))"

text \<open>
  The operators \<open>+\<close>, \<open>-\<close>, \<open>*\<close> and \<open>/\<close>: the exact result, rounded; the
  infinities and \<open>NaN\<close> as the language has them.
\<close>

fun num_add :: "number \<Rightarrow> number \<Rightarrow> number" where
  "num_add NaN b = NaN"
| "num_add a NaN = NaN"
| "num_add PosInf NegInf = NaN"
| "num_add NegInf PosInf = NaN"
| "num_add PosInf b = PosInf"
| "num_add a PosInf = PosInf"
| "num_add NegInf b = NegInf"
| "num_add a NegInf = NegInf"
| "num_add (Finite x) (Finite y) = fl (x + y)"

fun num_sub :: "number \<Rightarrow> number \<Rightarrow> number" where
  "num_sub NaN b = NaN"
| "num_sub a NaN = NaN"
| "num_sub PosInf PosInf = NaN"
| "num_sub NegInf NegInf = NaN"
| "num_sub PosInf b = PosInf"
| "num_sub a PosInf = NegInf"
| "num_sub NegInf b = NegInf"
| "num_sub a NegInf = PosInf"
| "num_sub (Finite x) (Finite y) = fl (x - y)"

fun num_mul :: "number \<Rightarrow> number \<Rightarrow> number" where
  "num_mul NaN b = NaN"
| "num_mul a NaN = NaN"
| "num_mul (Finite x) (Finite y) = fl (x * y)"
| "num_mul (Finite x) PosInf = (if x = 0 then NaN else if 0 < x then PosInf else NegInf)"
| "num_mul (Finite x) NegInf = (if x = 0 then NaN else if 0 < x then NegInf else PosInf)"
| "num_mul PosInf (Finite y) = (if y = 0 then NaN else if 0 < y then PosInf else NegInf)"
| "num_mul NegInf (Finite y) = (if y = 0 then NaN else if 0 < y then NegInf else PosInf)"
| "num_mul PosInf PosInf = PosInf"
| "num_mul PosInf NegInf = NegInf"
| "num_mul NegInf PosInf = NegInf"
| "num_mul NegInf NegInf = PosInf"

fun num_div :: "number \<Rightarrow> number \<Rightarrow> number" where
  "num_div NaN b = NaN"
| "num_div a NaN = NaN"
| "num_div (Finite x) (Finite y) =
     (if y = 0 then (if x = 0 then NaN else if 0 < x then PosInf else NegInf)
      else fl (x / y))"
| "num_div (Finite x) PosInf = Finite 0"
| "num_div (Finite x) NegInf = Finite 0"
| "num_div PosInf (Finite y) = (if y < 0 then NegInf else PosInf)"
| "num_div NegInf (Finite y) = (if y < 0 then PosInf else NegInf)"
| "num_div PosInf b = NaN"
| "num_div NegInf b = NaN"

text \<open>
  \<open>Math.min\<close> and \<open>Math.max\<close> of two numbers: \<open>NaN\<close> when one of them is.
\<close>

fun num_min :: "number \<Rightarrow> number \<Rightarrow> number" where
  "num_min NaN b = NaN"
| "num_min a NaN = NaN"
| "num_min NegInf b = NegInf"
| "num_min a NegInf = NegInf"
| "num_min PosInf b = b"
| "num_min a PosInf = a"
| "num_min (Finite x) (Finite y) = Finite (min x y)"

fun num_max :: "number \<Rightarrow> number \<Rightarrow> number" where
  "num_max NaN b = NaN"
| "num_max a NaN = NaN"
| "num_max PosInf b = PosInf"
| "num_max a PosInf = PosInf"
| "num_max NegInf b = b"
| "num_max a NegInf = a"
| "num_max (Finite x) (Finite y) = Finite (max x y)"

section \<open>The map region of the tracking screen (renderMap)\<close>

definition allCoordinates :: "LocationState \<Rightarrow> LocationCoordinates list" where
  "allCoordinates ls =
     [collectionCenter ls, hospital ls]
       @ (case riderLocation ls of Some r \<Rightarrow> [r] | None \<Rightarrow> [])"

text \<open>
  \<open>Math.min(...values)\<close> and \<open>Math.max(...values)\<close>: of no arguments they are
  \<open>Infinity\<close> and \<open>-Infinity\<close>.
\<close>

definition Math_min :: "number list \<Rightarrow> number" where
  "Math_min values = fold (\<lambda>v least. num_min least v) values PosInf"

definition Math_max :: "number list \<Rightarrow> number" where
  "Math_max values = fold (\<lambda>v greatest. num_max greatest v) values NegInf"

text \<open>
  The coordinates that \<open>renderMap\<close> computes with, and the region it gives to the
  map. \<open>2\<close> and \<open>1.5\<close> are doubles; \<open>0.01\<close> is none, and the literal stands for
  the double nearest to it.
\<close>

record MapCoordinates =
  map_latitude :: number
  map_longitude :: number

record Region =
  region_latitude :: number
  region_longitude :: number
  latitudeDelta :: number
  longitudeDelta :: number

definition regionOf :: "MapCoordinates list \<Rightarrow> Region" where
  "regionOf coords =
     (let minLat = Math_min (map map_latitude coords);
          maxLat = Math_max (map map_latitude coords);
          minLng = Math_min (map map_longitude coords);
          maxLng = Math_max (map map_longitude coords)
      in \<lparr> region_latitude = num_div (num_add minLat maxLat) (Finite 2),
           region_longitude = num_div (num_add minLng maxLng) (Finite 2),
           latitudeDelta =
             Math_max [fl (1 / 100), num_mul (num_sub maxLat minLat) (Finite (3 / 2))],
           longitudeDelta =
             Math_max [fl (1 / 100), num_mul (num_sub maxLng minLng) (Finite (3 / 2))] \<rparr>)"

text \<open>The coordinates that the state of the screen holds are finite numbers.\<close>

definition mapCoordinates :: "LocationCoordinates \<Rightarrow> MapCoordinates" where
  "mapCoordinates c =
     \<lparr> map_latitude = Finite (latitude c), map_longitude = Finite (longitude c) \<rparr>"

definition renderMap_region :: "LocationState \<Rightarrow> Region" where
  "renderMap_region ls = regionOf (map mapCoordinates (allCoordinates ls))"

text \<open>
  For the statements below: a number that is finite and of a magnitude within a bound,
  and the value of a finite number.
\<close>

definition finite_within :: "real \<Rightarrow> number \<Rightarrow> bool" where
  "finite_within bound v = (case v of Finite x \<Rightarrow> \<bar>x\<bar> \<le> bound | _ \<Rightarrow> False)"

definition value_of :: "number \<Rightarrow> real" where
  "value_of v = (case v of Finite x \<Rightarrow> x | _ \<Rightarrow> 0)"

section \<open>Initial states of the screens and a sample order\<close>

text \<open>The state the tracking screen starts with (its \<open>useState\<close> calls).\<close>

definition initialLocationState :: LocationState where
  "initialLocationState =
     \<lparr> collectionCenter = \<lparr> latitude = 6.9147, longitude = 79.8731 \<rparr>,
       hospital = \<lparr> latitude = 6.9236, longitude = 79.8581 \<rparr>,
       riderLocation = None,
       isRiderLocationActive = False,
       routeCoordinates = [],
       estimatedTimeToPickup = ''N/A'',
       estimatedTimeToDelivery = ''N/A'' \<rparr>"

definition initialScreenState :: ScreenState where
  "initialScreenState =
     \<lparr> orderData = None, isLoading = True, qrData = None, timeline = [],
       locationState = initialLocationState \<rparr>"

definition initialDeliveryCreatedState :: DeliveryCreatedState where
  "initialDeliveryCreatedState =
     \<lparr> riderStatus = \<lparr> rider_status = ''pending_rider_assignment'', rider = None,
                       last_updated = None \<rparr>,
       isLoadingRider = True \<rparr>"

text \<open>An order that has just been created: no rider, no timestamp but the first.\<close>

definition newOrder :: Order where
  "newOrder =
     \<lparr> rider_id = None, sample_type = ''blood'', sample_quantity = 2,
       status = ''pending_rider_assignment'',
       created_at = Some ''2024-05-01T08:00:00Z'', updated_at = Some ''2024-05-01T08:00:00Z'',
       assigned_at = None, pickup_started_at = None, picked_up_at = None, delivered_at = None,
       rider_info = None, rider_name = None, rider_phone = None,
       rider_current_location = None,
       locations_pickup = None, locations_delivery = None,
       pickup_location_lat = None, pickup_location_lng = None,
       delivery_location_lat = None, delivery_location_lng = None,
       timing_estimated_delivery_time = None, estimated_delivery_time = None \<rparr>"

text \<open>The same order once a rider has accepted it.\<close>

definition assignedOrder :: Order where
  "assignedOrder =
     newOrder\<lparr> rider_id := Some ''rider-7'', status := ''assigned'',
                assigned_at := Some ''2024-05-01T08:05:00Z'' \<rparr>"

definition trackingScreenState :: ScreenState where
  "trackingScreenState =
     initialScreenState\<lparr> orderData := Some assignedOrder, isLoading := False \<rparr>"

text \<open>A successful answer of the API client, and the answer that carries an order.\<close>

definition okResponse :: "'a \<Rightarrow> 'a ApiResponse" where
  "okResponse d = \<lparr> success = True, message = ''OK'', data = Some d \<rparr>"

definition snapshotOf :: "Order \<Rightarrow> js_error + OrderDetails ApiResponse" where
  "snapshotOf order = Inr (okResponse \<lparr> od_order = order, status_history = None \<rparr>)"

definition sampleTracking :: TrackingData where
  "sampleTracking =
     \<lparr> rider_location = Some \<lparr> rider_lat = Some 6.92, rider_lng = Some 79.86,
                              timestamp = ''2024-05-01T08:06:00Z'' \<rparr>,
       tracking_rider_current_location = None,
       estimated_arrival = ''15 min'',
       tracking_status = ''assigned'' \<rparr>"

text \<open>
  An answer of the operations endpoint for that order with no location rows, and what
  \<open>getOrderTracking\<close> makes of it at a given time.
\<close>

definition emptyOperations :: "OperationsDetails ApiResponse" where
  "emptyOperations = okResponse \<lparr> ops_order = Some assignedOrder, location_tracking = Some [] \<rparr>"

definition sentinelTracking :: "TrackingData ApiResponse" where
  "sentinelTracking =
     \<lparr> success = True,
       message = ''Order tracking retrieved successfully'',
       data = Some
         \<lparr> rider_location = Some \<lparr> rider_lat = Some 0, rider_lng = Some 0,
                                  timestamp = ''2024-05-01T08:06:00Z'' \<rparr>,
           tracking_rider_current_location = None,
           estimated_arrival = ''N/A'',
           tracking_status = ''assigned'' \<rparr> \<rparr>"

text \<open>A request that fails three times in a row, the timer firing in between.\<close>

definition threeFailures :: "(js_error + TrackingData ApiResponse) PollEvent list" where
  "threeFailures =
     [Settled (Inl (Error ''Network request failed'')), Tick,
      Settled (Inl (Error ''Network request failed'')), Tick,
      Settled (Inl (Error ''Network request failed''))]"

section \<open>Properties of the timeline\<close>

lemma timeline_statuses:
  "map item_status (buildTimelineFromOrder fmt order h) =
     [ completed,
       (if status order = ''pending_rider_assignment'' then current
        else if truthy_str (assigned_at order) then completed else pending),
       (if status order = ''assigned'' \<or> status order = ''pickup_started'' then current
        else if truthy_str (pickup_started_at order) then completed else pending),
       (if status order = ''picked_up'' then current
        else if truthy_str (picked_up_at order) then completed else pending),
       (if status order = ''delivery_started'' then current
        else if truthy_str (delivered_at order) then completed
        else if status order = ''delivered'' then current else pending) ]"
  by (simp add: buildTimelineFromOrder_def currentOrderStatuses_def timelineSteps_def
      isCurrentStep_def)

lemma timeline_titled_statuses:
  "map (\<lambda>step. (title step, item_status step)) (buildTimelineFromOrder fmt order h) =
     [ (''Order Created'', completed),
       (''Rider Assignment'',
        if status order = ''pending_rider_assignment'' then current
        else if truthy_str (assigned_at order) then completed else pending),
       (''En Route to Pickup'',
        if status order = ''assigned'' \<or> status order = ''pickup_started'' then current
        else if truthy_str (pickup_started_at order) then completed else pending),
       (''Samples Collected'',
        if status order = ''picked_up'' then current
        else if truthy_str (picked_up_at order) then completed else pending),
       (''Delivered to Hospital'',
        if status order = ''delivery_started'' then current
        else if truthy_str (delivered_at order) then completed
        else if status order = ''delivered'' then current else pending) ]"
  by (simp add: buildTimelineFromOrder_def currentOrderStatuses_def timelineSteps_def
      isCurrentStep_def)

lemma timeline_titles:
  "map title (buildTimelineFromOrder fmt order h) =
     [''Order Created'', ''Rider Assignment'', ''En Route to Pickup'', ''Samples Collected'',
      ''Delivered to Hospital'']"
  by (simp add: buildTimelineFromOrder_def currentOrderStatuses_def timelineSteps_def
      isCurrentStep_def)

lemma timeline_times:
  "map time (buildTimelineFromOrder fmt order h) =
     map (formatTime fmt)
       [created_at order, assigned_at order, pickup_started_at order, picked_up_at order,
        delivered_at order]"
  by (simp add: buildTimelineFromOrder_def currentOrderStatuses_def timelineSteps_def
      isCurrentStep_def)

text \<open>
  C1 (as the code has it). The first step is always completed. The step that the
  \<open>switch\<close> selects for the order's status is current, with or without a timestamp:
  Rider Assignment for \<open>pending_rider_assignment\<close>, En Route to Pickup for \<open>assigned\<close>
  and \<open>pickup_started\<close>, Samples Collected for \<open>picked_up\<close>, Delivered to Hospital
  for \<open>delivery_started\<close>. Every other step is completed when its timestamp is set and
  pending otherwise, except that Delivered to Hospital without a timestamp is current
  for status \<open>delivered\<close>. So for status \<open>delivery_started\<close> and no
  \<open>picked_up_at\<close>, Delivered to Hospital is current and Samples Collected pending.
\<close>

theorem buildTimelineFromOrder_statuses:
  "map item_status (buildTimelineFromOrder fmt order h) =
     [ completed,
       (if status order = ''pending_rider_assignment'' then current
        else if truthy_str (assigned_at order) then completed else pending),
       (if status order = ''assigned'' \<or> status order = ''pickup_started'' then current
        else if truthy_str (pickup_started_at order) then completed else pending),
       (if status order = ''picked_up'' then current
        else if truthy_str (picked_up_at order) then completed else pending),
       (if status order = ''delivery_started'' then current
        else if truthy_str (delivered_at order) then completed
        else if status order = ''delivered'' then current else pending) ]
   \<and> (status order = ''delivery_started'' \<and> \<not> truthy_str (picked_up_at order)
        \<longrightarrow> map (\<lambda>step. (title step, item_status step))
              (drop 3 (buildTimelineFromOrder fmt order h))
            = [(''Samples Collected'', pending), (''Delivered to Hospital'', current)])"
proof (intro conjI impI)
  assume started: "status order = ''delivery_started'' \<and> \<not> truthy_str (picked_up_at order)"
  have "map (\<lambda>step. (title step, item_status step))
          (drop 3 (buildTimelineFromOrder fmt order h))
      = drop 3 (map (\<lambda>step. (title step, item_status step))
          (buildTimelineFromOrder fmt order h))"
    by (simp add: drop_map)
  also have "\<dots> = [(''Samples Collected'', pending), (''Delivered to Hospital'', current)]"
    unfolding timeline_titled_statuses using started by simp
  finally show "map (\<lambda>step. (title step, item_status step))
        (drop 3 (buildTimelineFromOrder fmt order h))
      = [(''Samples Collected'', pending), (''Delivered to Hospital'', current)]" .
qed (rule timeline_statuses)

theorem buildTimelineFromOrder_statuses_witness:
  "map item_status
     (buildTimelineFromOrder Some
        (newOrder\<lparr> status := ''delivery_started'', rider_id := Some ''rider-7'' \<rparr>) [])
   = [completed, pending, pending, pending, current]
   \<and> status (newOrder\<lparr> status := ''delivery_started'', rider_id := Some ''rider-7'' \<rparr>)
       = ''delivery_started''
   \<and> \<not> truthy_str
         (picked_up_at (newOrder\<lparr> status := ''delivery_started'', rider_id := Some ''rider-7'' \<rparr>))
   \<and> map (\<lambda>step. (title step, item_status step))
       (drop 3 (buildTimelineFromOrder Some
          (newOrder\<lparr> status := ''delivery_started'', rider_id := Some ''rider-7'' \<rparr>) []))
     = [(''Samples Collected'', pending), (''Delivered to Hospital'', current)]"
  using buildTimelineFromOrder_statuses
    [of Some "newOrder\<lparr> status := ''delivery_started'', rider_id := Some ''rider-7'' \<rparr>" "[]"]
  by (simp add: newOrder_def truthy_str_def)

text \<open>
  C1 as stated fails: for status \<open>delivery_started\<close> and no \<open>picked_up_at\<close>, with
  the three earlier timestamps set, Samples Collected is the first step without a
  timestamp and its predecessor is completed, yet it is pending and Delivered to
  Hospital is the current step.
\<close>

theorem buildTimelineFromOrder_current_counterexample:
  "map (\<lambda>step. (title step, item_status step))
     (buildTimelineFromOrder Some
        (newOrder\<lparr> status := ''delivery_started'', rider_id := Some ''rider-7'',
                   assigned_at := Some ''2024-05-01T08:05:00Z'',
                   pickup_started_at := Some ''2024-05-01T08:10:00Z'',
                   picked_up_at := None, delivered_at := None \<rparr>) [])
   = [(''Order Created'', completed), (''Rider Assignment'', completed),
      (''En Route to Pickup'', completed), (''Samples Collected'', pending),
      (''Delivered to Hospital'', current)]"
  by (simp add: buildTimelineFromOrder_def currentOrderStatuses_def timelineSteps_def
      isCurrentStep_def newOrder_def truthy_str_def)

text \<open>
  C7 (as the code has it). For every order object the timeline is the list of the five
  fixed steps. The time label of a step is \<open>Pending\<close> when its timestamp is unset (or
  when formatting throws) and the formatted timestamp otherwise. When the status is none
  of \<open>assigned\<close>, \<open>pickup_started\<close>, \<open>picked_up\<close>, \<open>delivery_started\<close>,
  \<open>delivered\<close> and the timestamps of the last three steps are unset, the three steps
  after Rider Assignment are pending, with or without a rider.
\<close>

theorem buildTimelineFromOrder_total:
  "map title (buildTimelineFromOrder fmt order h) =
     [''Order Created'', ''Rider Assignment'', ''En Route to Pickup'', ''Samples Collected'',
      ''Delivered to Hospital'']
   \<and> map time (buildTimelineFromOrder fmt order h) =
       map (formatTime fmt)
         [created_at order, assigned_at order, pickup_started_at order, picked_up_at order,
          delivered_at order]
   \<and> (\<not> truthy_str ts \<longrightarrow> formatTime fmt ts = ''Pending'')
   \<and> (truthy_str (Some s) \<and> fmt s = Some label \<longrightarrow> formatTime fmt (Some s) = label)
   \<and> (truthy_str (Some s') \<and> fmt s' = None \<longrightarrow> formatTime fmt (Some s') = ''Pending'')
   \<and> (status order \<notin> set [''assigned'', ''pickup_started'', ''picked_up'',
                              ''delivery_started'', ''delivered'']
        \<and> \<not> truthy_str (pickup_started_at order) \<and> \<not> truthy_str (picked_up_at order)
        \<and> \<not> truthy_str (delivered_at order)
      \<longrightarrow> map item_status (drop 2 (buildTimelineFromOrder fmt order h))
            = [pending, pending, pending])"
proof -
  have labels: "\<not> truthy_str ts \<longrightarrow> formatTime fmt ts = ''Pending''"
    by (auto simp: truthy_str_def formatTime_def split: option.splits)
  have later: "map item_status (drop 2 (buildTimelineFromOrder fmt order h))
      = drop 2 (map item_status (buildTimelineFromOrder fmt order h))"
    by (simp add: drop_map)
  show ?thesis
    using labels timeline_titles [of fmt order h] timeline_times [of fmt order h]
    unfolding later timeline_statuses
    by (auto simp: truthy_str_def formatTime_def)
qed

theorem buildTimelineFromOrder_total_witness:
  "\<not> truthy_str None
   \<and> truthy_str (Some ''2024-05-01T08:00:00Z'')
   \<and> truthy_str (Some ''soon'')
   \<and> status newOrder \<notin> set [''assigned'', ''pickup_started'', ''picked_up'',
                               ''delivery_started'', ''delivered'']
   \<and> \<not> truthy_str (pickup_started_at newOrder) \<and> \<not> truthy_str (picked_up_at newOrder)
   \<and> \<not> truthy_str (delivered_at newOrder)
   \<and> map time
        (buildTimelineFromOrder (\<lambda>t. if t = ''soon'' then None else Some (take 5 (drop 11 t)))
           newOrder [])
      = [''08:00'', ''Pending'', ''Pending'', ''Pending'', ''Pending'']
   \<and> formatTime (\<lambda>t. if t = ''soon'' then None else Some (take 5 (drop 11 t))) (Some ''soon'')
      = ''Pending''
   \<and> map item_status
        (drop 2 (buildTimelineFromOrder
           (\<lambda>t. if t = ''soon'' then None else Some (take 5 (drop 11 t)))
           newOrder []))
      = [pending, pending, pending]"
  using buildTimelineFromOrder_total
    [of "\<lambda>t. if t = ''soon'' then None else Some (take 5 (drop 11 t))" newOrder
        "[]" None "''2024-05-01T08:00:00Z''" "''08:00''" "''soon''"]
  by (simp add: newOrder_def truthy_str_def formatTime_def)

text \<open>
  C7 as stated fails: an order without a rider, still waiting for one, whose
  \<open>pickup_started_at\<close> holds text that is no date has En Route to Pickup completed,
  not pending.
\<close>

theorem buildTimelineFromOrder_no_rider_counterexample:
  "rider_id (newOrder\<lparr> pickup_started_at := Some ''not a date'' \<rparr>) = None
   \<and> map (\<lambda>step. (title step, item_status step))
       (buildTimelineFromOrder (\<lambda>t. Some ''Invalid Date'')
          (newOrder\<lparr> pickup_started_at := Some ''not a date'' \<rparr>) [])
     = [(''Order Created'', completed), (''Rider Assignment'', current),
        (''En Route to Pickup'', completed), (''Samples Collected'', pending),
        (''Delivered to Hospital'', pending)]"
  by (simp add: buildTimelineFromOrder_def currentOrderStatuses_def timelineSteps_def
      isCurrentStep_def newOrder_def truthy_str_def)

section \<open>Properties of the status vocabulary\<close>

text \<open>
  C2 (as the code has it). \<open>ORDER_STATUSES\<close> holds ten distinct values: the seven
  that \<open>RiderStatus\<close> admits, in the same order, and three handover statuses;
  \<open>created\<close> is none of them. The status a screen holds for an order is the one string
  of the order's \<open>status\<close> field.
\<close>

theorem ORDER_STATUSES_vocabulary:
  "distinct ORDER_STATUSES
   \<and> length ORDER_STATUSES = 10
   \<and> take 7 ORDER_STATUSES = RiderStatus_status
   \<and> drop 7 ORDER_STATUSES = [''handover_pending'', ''handover_accepted'', ''handover_confirmed'']
   \<and> ''created'' \<notin> set ORDER_STATUSES
   \<and> rider_status (riderStatusOf order) = status order"
  by (simp add: ORDER_STATUSES_def RiderStatus_status_def riderStatusOf_def)

text \<open>
  C2 as stated fails: the vocabulary of the code is not the eight values of the claim.
\<close>

theorem ORDER_STATUSES_counterexample:
  "set ORDER_STATUSES \<noteq>
     {''created'', ''pending_rider_assignment'', ''assigned'', ''pickup_started'', ''picked_up'',
      ''delivery_started'', ''delivered'', ''cancelled''}"
proof
  assume eq: "set ORDER_STATUSES =
     {''created'', ''pending_rider_assignment'', ''assigned'', ''pickup_started'', ''picked_up'',
      ''delivery_started'', ''delivered'', ''cancelled''}"
  have "''created'' \<notin> set ORDER_STATUSES"
    by (simp add: ORDER_STATUSES_def)
  with eq show False by simp
qed

section \<open>Applying snapshots to the screens' state\<close>

lemma num_or_default_idem: "num_or_default a (num_or_default a d) = num_or_default a d"
  by (simp add: num_or_default_def split: option.splits)

lemma loadedLocationState_idem:
  "loadedLocationState order (loadedLocationState order prev) = loadedLocationState order prev"
  by (simp add: loadedLocationState_def Let_def num_or_default_idem)

lemma loadOrderData_idem:
  "loadOrderData fmt (loadOrderData fmt st r q) r q = loadOrderData fmt st r q"
  by (simp add: loadOrderData_def Let_def loadedLocationState_idem
      split: sum.splits option.splits)

lemma pollRiderStatus_idem:
  "pollRiderStatus (pollRiderStatus ds r) r = pollRiderStatus ds r"
  by (simp add: pollRiderStatus_def split: sum.splits option.splits)

lemma loadOrderData_last:
  "success resp \<Longrightarrow> data resp = Some d
    \<Longrightarrow> orderData (loadOrderData fmt st (Inr resp) q) = Some (od_order d)"
  by (simp add: loadOrderData_def Let_def split: sum.splits option.splits)

text \<open>
  C3 (as the code has it). Applying the same fetched snapshot twice gives the state
  that applying it once gives, on the tracking screen (\<open>loadOrderData\<close>) and on the
  delivery-created screen (\<open>pollRiderStatus\<close>). The order a screen holds after a
  successful fetch is the order of that snapshot, timestamps included, whatever it held
  before: the last snapshot applied wins.
\<close>

theorem snapshot_application_idempotent:
  "loadOrderData fmt (loadOrderData fmt st r q) r q = loadOrderData fmt st r q
   \<and> pollRiderStatus (pollRiderStatus ds r) r = pollRiderStatus ds r
   \<and> (success resp \<and> data resp = Some d
        \<longrightarrow> orderData (loadOrderData fmt st (Inr resp) q) = Some (od_order d))"
  using loadOrderData_idem [of fmt st r q] pollRiderStatus_idem [of ds r]
    loadOrderData_last [of resp d fmt st q]
  by blast

theorem snapshot_application_idempotent_witness:
  "success (okResponse \<lparr> od_order = assignedOrder, status_history = None \<rparr>)
   \<and> data (okResponse \<lparr> od_order = assignedOrder, status_history = None \<rparr>)
       = Some \<lparr> od_order = assignedOrder, status_history = None \<rparr>
   \<and> loadOrderData Some
        (loadOrderData Some initialScreenState (snapshotOf assignedOrder)
           (Inl (Error ''No pickup QR code found for order'')))
        (snapshotOf assignedOrder) (Inl (Error ''No pickup QR code found for order''))
      = loadOrderData Some initialScreenState (snapshotOf assignedOrder)
          (Inl (Error ''No pickup QR code found for order''))
   \<and> orderData
        (loadOrderData Some initialScreenState
           (Inr (okResponse
              \<lparr> od_order = assignedOrder, status_history = None \<rparr>))
           (Inl (Error ''No pickup QR code found for order'')))
      = Some assignedOrder"
  using snapshot_application_idempotent
    [of Some initialScreenState "snapshotOf assignedOrder"
        "Inl (Error ''No pickup QR code found for order'')" initialDeliveryCreatedState
        "okResponse \<lparr> od_order = assignedOrder, status_history = None \<rparr>"
        "\<lparr> od_order = assignedOrder, status_history = None \<rparr>"]
  by (simp add: okResponse_def)

text \<open>
  C3 as stated fails: a timestamp is not written once. A snapshot with
  \<open>picked_up_at\<close> sets it; an older snapshot without it, arriving later, clears it; the
  first snapshot again sets it a second time, and a snapshot with another instant
  overwrites it.
\<close>

theorem timestamp_write_once_counterexample:
  "map_option picked_up_at (orderData
     (loadOrderData Some initialScreenState
        (snapshotOf (newOrder\<lparr> status := ''picked_up'',
                                picked_up_at := Some ''2024-05-01T08:20:00Z'' \<rparr>))
        (Inl (Error ''No pickup QR code found for order''))))
   = Some (Some ''2024-05-01T08:20:00Z'')
   \<and> map_option picked_up_at (orderData
     (loadOrderData Some
        (loadOrderData Some initialScreenState
           (snapshotOf (newOrder\<lparr> status := ''picked_up'',
                                   picked_up_at := Some ''2024-05-01T08:20:00Z'' \<rparr>))
           (Inl (Error ''No pickup QR code found for order'')))
        (snapshotOf (newOrder\<lparr> status := ''pickup_started'' \<rparr>))
        (Inl (Error ''No pickup QR code found for order''))))
   = Some None
   \<and> map_option picked_up_at (orderData
     (loadOrderData Some
        (loadOrderData Some initialScreenState
           (snapshotOf (newOrder\<lparr> status := ''picked_up'',
                                   picked_up_at := Some ''2024-05-01T08:20:00Z'' \<rparr>))
           (Inl (Error ''No pickup QR code found for order'')))
        (snapshotOf (newOrder\<lparr> status := ''picked_up'',
                                picked_up_at := Some ''2024-05-01T09:45:00Z'' \<rparr>))
        (Inl (Error ''No pickup QR code found for order''))))
   = Some (Some ''2024-05-01T09:45:00Z'')"
  by (simp add: loadOrderData_def snapshotOf_def okResponse_def Let_def newOrder_def
      truthy_str_def)

section \<open>Properties of the rider-location request and of its consumer\<close>

lemma getOrderTracking_present:
  "getOrderTracking pf now response = Inr r
    \<Longrightarrow> \<exists>d loc. data r = Some d \<and> rider_location d = Some loc"
  by (auto simp: getOrderTracking_def Let_def split: sum.splits option.splits if_splits)

lemma getOrderTracking_sentinel:
  assumes "success resp" "data resp = Some ops" "ops_order ops = Some order"
    "location_tracking ops = None \<or> location_tracking ops = Some []"
    "\<not> (truthy_str (Option.bind (rider_current_location order) current_lat)
         \<and> truthy_str (Option.bind (rider_current_location order) current_lng))"
  shows "\<exists>r d. getOrderTracking pf now (Inr resp) = Inr r \<and> data r = Some d \<and> success r
      \<and> rider_location d = Some \<lparr> rider_lat = Some 0, rider_lng = Some 0, timestamp = now \<rparr>
      \<and> tracking_rider_current_location d = None"
  using assms by (auto simp: getOrderTracking_def Let_def)

lemma pollRiderLocation_invalid:
  assumes "data resp = Some td" "tracking_rider_current_location td = None"
    "\<not> truthy_num (Option.bind (rider_location td) rider_lat)
     \<or> \<not> truthy_num (Option.bind (rider_location td) rider_lng)"
  shows "pollRiderLocation prev (Inr resp) = prev"
  using assms
  by (auto simp: pollRiderLocation_def Let_def or_num_def truthy_num_def split: option.splits)

text \<open>
  C10. An answer of \<open>getOrderTracking\<close> always carries a rider location. With no
  location tracking rows and no current location of the rider on the order, that
  location is latitude 0, longitude 0 with the current time, and polling with such an
  answer leaves the location state of the screen (rider location and estimated time
  included) as it was. So does any answer whose latitude or longitude is missing or 0.
\<close>

theorem getOrderTracking_sentinel_ignored:
  "(getOrderTracking pf now response = Inr r
      \<longrightarrow> (\<exists>d loc. data r = Some d \<and> rider_location d = Some loc))
   \<and> (success resp \<and> data resp = Some ops \<and> ops_order ops = Some order
        \<and> (location_tracking ops = None \<or> location_tracking ops = Some [])
        \<and> \<not> (truthy_str (Option.bind (rider_current_location order) current_lat)
              \<and> truthy_str (Option.bind (rider_current_location order) current_lng))
      \<longrightarrow> (\<exists>r' d. getOrderTracking pf now (Inr resp) = Inr r' \<and> data r' = Some d
              \<and> rider_location d
                  = Some \<lparr> rider_lat = Some 0, rider_lng = Some 0, timestamp = now \<rparr>)
          \<and> pollRiderLocation prev (getOrderTracking pf now (Inr resp)) = prev)
   \<and> (data tresp = Some td \<and> tracking_rider_current_location td = None
        \<and> (\<not> truthy_num (Option.bind (rider_location td) rider_lat)
             \<or> \<not> truthy_num (Option.bind (rider_location td) rider_lng))
      \<longrightarrow> pollRiderLocation prev (Inr tresp) = prev)"
proof (intro conjI impI)
  assume "getOrderTracking pf now response = Inr r"
  then show "\<exists>d loc. data r = Some d \<and> rider_location d = Some loc"
    by (rule getOrderTracking_present)
next
  assume h: "success resp \<and> data resp = Some ops \<and> ops_order ops = Some order
        \<and> (location_tracking ops = None \<or> location_tracking ops = Some [])
        \<and> \<not> (truthy_str (Option.bind (rider_current_location order) current_lat)
              \<and> truthy_str (Option.bind (rider_current_location order) current_lng))"
  then obtain r' d where r': "getOrderTracking pf now (Inr resp) = Inr r'" "data r' = Some d"
      "rider_location d = Some \<lparr> rider_lat = Some 0, rider_lng = Some 0, timestamp = now \<rparr>"
      "tracking_rider_current_location d = None"
    using getOrderTracking_sentinel [of resp ops order pf now] by blast
  then show "\<exists>r' d. getOrderTracking pf now (Inr resp) = Inr r' \<and> data r' = Some d
      \<and> rider_location d = Some \<lparr> rider_lat = Some 0, rider_lng = Some 0, timestamp = now \<rparr>"
    by blast
  show "pollRiderLocation prev (getOrderTracking pf now (Inr resp)) = prev"
    unfolding r'(1) using r'(2-4)
    by (intro pollRiderLocation_invalid [of r' d]) (simp_all add: truthy_num_def)
next
  assume "data tresp = Some td \<and> tracking_rider_current_location td = None
        \<and> (\<not> truthy_num (Option.bind (rider_location td) rider_lat)
             \<or> \<not> truthy_num (Option.bind (rider_location td) rider_lng))"
  then show "pollRiderLocation prev (Inr tresp) = prev"
    using pollRiderLocation_invalid [of tresp td prev] by blast
qed

theorem getOrderTracking_sentinel_ignored_witness:
  "getOrderTracking (\<lambda>t. None) ''2024-05-01T08:06:00Z'' (Inr emptyOperations)
     = Inr sentinelTracking
   \<and> success emptyOperations
   \<and> data emptyOperations = Some \<lparr> ops_order = Some assignedOrder, location_tracking = Some [] \<rparr>
   \<and> \<not> truthy_str (Option.bind (rider_current_location assignedOrder) current_lat)
   \<and> \<not> truthy_num (Option.bind (rider_location (sampleTracking\<lparr>rider_location := None\<rparr>))
                       rider_lat)
   \<and> (\<exists>d loc. data sentinelTracking = Some d \<and> rider_location d = Some loc)
   \<and> pollRiderLocation initialLocationState
        (getOrderTracking (\<lambda>t. None) ''2024-05-01T08:06:00Z'' (Inr emptyOperations))
      = initialLocationState
   \<and> pollRiderLocation initialLocationState
        (Inr (okResponse (sampleTracking\<lparr>rider_location := None\<rparr>)))
      = initialLocationState"
  using getOrderTracking_sentinel_ignored
    [of "\<lambda>t. None" "''2024-05-01T08:06:00Z''" "Inr emptyOperations" sentinelTracking
        emptyOperations "\<lparr> ops_order = Some assignedOrder, location_tracking = Some [] \<rparr>"
        assignedOrder initialLocationState
        "okResponse (sampleTracking\<lparr>rider_location := None\<rparr>)"
        "sampleTracking\<lparr>rider_location := None\<rparr>"]
  by (simp add: getOrderTracking_def emptyOperations_def sentinelTracking_def okResponse_def
      assignedOrder_def newOrder_def sampleTracking_def truthy_str_def truthy_num_def
      str_or_default_def or_str_def Let_def)

section \<open>Properties of the polling timer\<close>

lemma pollStep_timer_kept:
  "ev \<noteq> Cleanup \<Longrightarrow> timer (pollStep settle p ev) = timer p"
  by (cases ev) (simp_all add: pollStep_def)

lemma pollRun_timer_kept:
  "Cleanup \<notin> set evs \<Longrightarrow> timer (pollRun settle p evs) = timer p"
  unfolding pollRun_def
proof (induction evs arbitrary: p)
  case Nil
  then show ?case by simp
next
  case (Cons ev evs)
  then have "timer (pollStep settle p ev) = timer p"
    by (intro pollStep_timer_kept) auto
  with Cons show ?case by simp
qed

lemma pollStep_cleared:
  "timer p = None
    \<Longrightarrow> timer (pollStep settle p ev) = None \<and> inFlight (pollStep settle p ev) \<le> inFlight p"
  by (cases ev) (simp_all add: pollStep_def)

lemma pollRun_cleared:
  "timer p = None
    \<Longrightarrow> timer (pollRun settle p evs) = None \<and> inFlight (pollRun settle p evs) \<le> inFlight p"
  unfolding pollRun_def
proof (induction evs arbitrary: p)
  case Nil
  then show ?case by simp
next
  case (Cons ev evs)
  from pollStep_cleared [OF Cons.prems, of settle ev]
  have step: "timer (pollStep settle p ev) = None"
    and fewer: "inFlight (pollStep settle p ev) \<le> inFlight p"
    by simp_all
  from Cons.IH [OF step] fewer show ?case by auto
qed

text \<open>
  C5 (as the code has it). For an order with a rider the tracking screen polls with a
  period of 30 seconds, and whatever the requests settle to, the timer keeps that period
  until the effect is cleaned up: nothing doubles it and there is no ceiling. A failed
  request leaves the location state and the timer as they were, and the next request
  that settles is applied as usual.
\<close>

theorem polling_interval_fixed:
  "(truthy_str (Option.bind (orderData st) rider_id) \<and> Cleanup \<notin> set evs
      \<longrightarrow> timer (pollRun pollRiderLocation (riderLocationEffect st) evs) = Some 30000)
   \<and> screen (pollStep pollRiderLocation p (Settled (Inl err))) = screen p
   \<and> timer (pollStep pollRiderLocation p (Settled (Inl err))) = timer p
   \<and> (inFlight p \<noteq> 0
        \<longrightarrow> screen (pollStep pollRiderLocation p (Settled r)) = pollRiderLocation (screen p) r)"
proof (intro conjI impI)
  assume "truthy_str (Option.bind (orderData st) rider_id) \<and> Cleanup \<notin> set evs"
  then show "timer (pollRun pollRiderLocation (riderLocationEffect st) evs) = Some 30000"
    using pollRun_timer_kept [of evs pollRiderLocation "riderLocationEffect st"]
    by (simp add: riderLocationEffect_def startPolling_def)
qed (simp_all add: pollStep_def pollRiderLocation_def)

theorem polling_interval_fixed_witness:
  "truthy_str (Option.bind (orderData trackingScreenState) rider_id)
   \<and> Cleanup \<notin> set (threeFailures @ [Tick])
   \<and> inFlight (pollRun pollRiderLocation (riderLocationEffect trackingScreenState)
                 (threeFailures @ [Tick])) \<noteq> 0
   \<and> timer (pollRun pollRiderLocation (riderLocationEffect trackingScreenState)
              (threeFailures @ [Tick])) = Some 30000
   \<and> riderLocation (screen (pollStep pollRiderLocation
        (pollRun pollRiderLocation (riderLocationEffect trackingScreenState)
           (threeFailures @ [Tick]))
        (Settled (Inr (okResponse sampleTracking)))))
      = Some \<lparr> latitude = 6.92, longitude = 79.86 \<rparr>"
  using polling_interval_fixed
    [of trackingScreenState "threeFailures @ [Tick]"
        "pollRun pollRiderLocation (riderLocationEffect trackingScreenState)
           (threeFailures @ [Tick])"
        "Error ''Network request failed''" "Inr (okResponse sampleTracking)"]
  by (simp add: trackingScreenState_def initialScreenState_def assignedOrder_def newOrder_def
      truthy_str_def threeFailures_def pollRun_def pollStep_def riderLocationEffect_def
      startPolling_def pollRiderLocation_def okResponse_def sampleTracking_def or_num_def
      truthy_num_def initialLocationState_def)

text \<open>
  C5 as stated fails: after three failed requests in a row the period of the timer is
  the 30 seconds it started with; it has not doubled.
\<close>

theorem polling_backoff_counterexample:
  "timer (riderLocationEffect trackingScreenState) = Some 30000
   \<and> timer (pollRun pollRiderLocation (riderLocationEffect trackingScreenState) threeFailures)
       = Some 30000"
  by (simp add: trackingScreenState_def initialScreenState_def assignedOrder_def newOrder_def
      truthy_str_def threeFailures_def pollRun_def pollStep_def riderLocationEffect_def
      startPolling_def)

text \<open>
  C6 (as the code has it). The clean-up of a polling effect clears the timer, which
  stays cleared whatever happens later, so that a tick starts no request any more. It
  leaves the requests in flight alone: one that settles after the clean-up is still
  applied to the screen's state.
\<close>

theorem cleanup_clears_timer_only:
  "timer (pollStep settle p Cleanup) = None
   \<and> inFlight (pollStep settle p Cleanup) = inFlight p
   \<and> timer (pollRun settle (pollStep settle p Cleanup) evs) = None
   \<and> pollStep settle (pollStep settle p Cleanup) Tick = pollStep settle p Cleanup
   \<and> (inFlight p \<noteq> 0
        \<longrightarrow> screen (pollStep settle (pollStep settle p Cleanup) (Settled r))
            = settle (screen p) r)"
proof -
  have cleared: "timer (pollStep settle p Cleanup) = None"
    by (simp add: pollStep_def)
  show ?thesis
    using pollRun_cleared [OF cleared, of settle evs]
    by (simp add: pollStep_def)
qed

theorem cleanup_clears_timer_only_witness:
  "inFlight (riderStatusEffect initialDeliveryCreatedState) \<noteq> 0
   \<and> timer (riderStatusEffect initialDeliveryCreatedState) = Some 5000
   \<and> timer (pollRun pollRiderStatus
        (pollStep pollRiderStatus (riderStatusEffect initialDeliveryCreatedState) Cleanup)
        [Tick, Tick]) = None
   \<and> rider_status (riderStatus (screen (pollStep pollRiderStatus
        (pollStep pollRiderStatus (riderStatusEffect initialDeliveryCreatedState) Cleanup)
        (Settled (snapshotOf assignedOrder)))))
      = ''assigned''"
proof -
  let ?p = "riderStatusEffect initialDeliveryCreatedState"
  have started: "inFlight ?p \<noteq> 0" "timer ?p = Some 5000"
    by (simp_all add: riderStatusEffect_def startPolling_def)
  from cleanup_clears_timer_only
    [of pollRiderStatus ?p "[Tick, Tick]" "snapshotOf assignedOrder"] started(1)
  have cleared: "timer (pollRun pollRiderStatus (pollStep pollRiderStatus ?p Cleanup)
        [Tick, Tick]) = None"
    and applied: "screen (pollStep pollRiderStatus (pollStep pollRiderStatus ?p Cleanup)
        (Settled (snapshotOf assignedOrder)))
      = pollRiderStatus (screen ?p) (snapshotOf assignedOrder)"
    by simp_all
  have "rider_status (riderStatus (pollRiderStatus (screen ?p) (snapshotOf assignedOrder)))
      = ''assigned''"
    by (simp add: pollRiderStatus_def snapshotOf_def okResponse_def riderStatusOf_def
        assignedOrder_def newOrder_def)
  with started cleared show ?thesis
    unfolding applied by simp
qed

text \<open>
  C6 as stated fails: the request that the effect started is still in flight when the
  effect is cleaned up; it settles afterwards and the rider's location is written to the
  state all the same.
\<close>

theorem cleanup_inflight_counterexample:
  "riderLocation (screen
     (pollRun pollRiderLocation (riderLocationEffect trackingScreenState) [Cleanup])) = None
   \<and> timer (pollRun pollRiderLocation (riderLocationEffect trackingScreenState) [Cleanup])
       = None
   \<and> riderLocation (screen
       (pollRun pollRiderLocation (riderLocationEffect trackingScreenState)
          [Cleanup, Settled (Inr (okResponse sampleTracking))]))
     = Some \<lparr> latitude = 6.92, longitude = 79.86 \<rparr>"
  by (simp add: trackingScreenState_def initialScreenState_def assignedOrder_def newOrder_def
      truthy_str_def pollRun_def pollStep_def riderLocationEffect_def startPolling_def
      pollRiderLocation_def okResponse_def sampleTracking_def or_num_def truthy_num_def
      initialLocationState_def)

section \<open>Properties of rounding\<close>

lemma rne_error: "\<bar>of_int (rne y) - y\<bar> \<le> 1 / 2"
  unfolding rne_def Let_def by (auto simp: abs_le_iff; linarith)

lemma fl_error:
  assumes "\<bar>x\<bar> < 2 ^ 1024 - 2 ^ 970"
  shows "\<exists>r. fl x = Finite r \<and> \<bar>r - x\<bar> \<le> \<bar>x\<bar> / 2 ^ 53 + 1 / 2 ^ 1075"
proof (cases "x = 0")
  case True
  then show ?thesis by (simp add: fl_def)
next
  case False
  define e where "e = max \<lfloor>log 2 \<bar>x\<bar>\<rfloor> (- 1022)"
  define q :: real where "q = 2 powr (of_int e - 52)"
  define r :: real where "r = of_int (rne (x / q)) * q"
  have q0: "0 < q" by (simp add: q_def)
  have fl: "fl x = Finite r"
    using False assms by (simp add: fl_def Let_def r_def q_def e_def)
  have "r - x = (of_int (rne (x / q)) - x / q) * q"
    using q0 by (simp add: r_def left_diff_distrib)
  then have "\<bar>r - x\<bar> = \<bar>of_int (rne (x / q)) - x / q\<bar> * q"
    using q0 by (simp add: abs_mult)
  also have "\<dots> \<le> 1 / 2 * q"
    using rne_error [of "x / q"] q0 by (intro mult_right_mono) auto
  finally have err: "\<bar>r - x\<bar> \<le> q / 2" by simp
  have "q / 2 \<le> \<bar>x\<bar> / 2 ^ 53 + 1 / 2 ^ 1075"
  proof (cases "\<lfloor>log 2 \<bar>x\<bar>\<rfloor> \<ge> - 1022")
    case True
    then have e: "e = \<lfloor>log 2 \<bar>x\<bar>\<rfloor>" by (simp add: e_def)
    have "2 powr (of_int e) \<le> \<bar>x\<bar>"
      using floor_log_eq_powr_iff [of "\<bar>x\<bar>" 2 e] False e by simp
    moreover have "q = 2 powr (of_int e) / 2 ^ 52"
      unfolding q_def by (simp add: powr_diff)
    ultimately have "q / 2 \<le> \<bar>x\<bar> / 2 ^ 53"
      by (simp add: field_simps)
    moreover have "(0::real) \<le> 1 / 2 ^ 1075" by simp
    ultimately show ?thesis by linarith
  next
    case False
    then have e: "e = - 1022" by (simp add: e_def)
    have "q = 2 powr (- 1074)" unfolding q_def e by simp
    also have "\<dots> = 1 / 2 ^ 1074"
      by (simp add: powr_minus_divide powr_realpow [symmetric])
    finally have "q / 2 = 1 / 2 ^ 1075" by simp
    then show ?thesis by simp
  qed
  with err fl show ?thesis by (intro exI [of _ r]) linarith
qed


lemma fl_hundredth: "fl (1 / 100) = Finite (5764607523034235 / 2 ^ 59)"
proof -
  have "\<lfloor>log 2 \<bar>1 / 100 :: real\<bar>\<rfloor> = - 7"
    by (subst floor_log_eq_powr_iff) (simp_all add: powr_minus_divide)
  then show ?thesis
    by (simp add: fl_def Let_def powr_minus_divide rne_def)
qed

section \<open>Properties of the map region\<close>

lemma fold_min_Finite:
  "fold (\<lambda>v least. num_min least v) (map Finite xs) (Finite a) = Finite (fold min xs a)"
  by (induction xs arbitrary: a) (simp_all add: min.commute)

lemma fold_max_Finite:
  "fold (\<lambda>v greatest. num_max greatest v) (map Finite xs) (Finite a) = Finite (fold max xs a)"
  by (induction xs arbitrary: a) (simp_all add: max.commute)

lemma Math_min_Finite:
  "xs \<noteq> [] \<Longrightarrow> Math_min (map Finite xs) = Finite (Min (set xs))"
  using Min.set_eq_fold [of "hd xs" "tl xs"]
  by (cases xs) (simp_all add: Math_min_def fold_min_Finite)

lemma Math_max_Finite:
  "xs \<noteq> [] \<Longrightarrow> Math_max (map Finite xs) = Finite (Max (set xs))"
  using Max.set_eq_fold [of "hd xs" "tl xs"]
  by (cases xs) (simp_all add: Math_max_def fold_max_Finite)

lemma fl_near:
  assumes "\<bar>x\<bar> \<le> 4398046511104"
  shows "\<exists>r. fl x = Finite r \<and> \<bar>r - x\<bar> \<le> 1 / 2000
           \<and> \<bar>r - x\<bar> \<le> \<bar>x\<bar> / 2 ^ 53 + 1 / 2 ^ 60"
proof -
  have "(4398046511104::real) < 2 ^ 1024 - 2 ^ 970" by simp
  with assms have "\<bar>x\<bar> < 2 ^ 1024 - 2 ^ 970" by linarith
  from fl_error [OF this] obtain r where r: "fl x = Finite r"
    "\<bar>r - x\<bar> \<le> \<bar>x\<bar> / 2 ^ 53 + 1 / 2 ^ 1075" by blast
  have "(1::real) / 2 ^ 1075 \<le> 1 / 2 ^ 60" by simp
  with r(2) have rel: "\<bar>r - x\<bar> \<le> \<bar>x\<bar> / 2 ^ 53 + 1 / 2 ^ 60" by linarith
  have "\<bar>x\<bar> / 2 ^ 53 \<le> 4398046511104 / 2 ^ 53"
    using assms by (intro divide_right_mono) auto
  moreover have "(4398046511104::real) / 2 ^ 53 + 1 / 2 ^ 60 \<le> 1 / 2000" by simp
  ultimately have "\<bar>r - x\<bar> \<le> 1 / 2000" using rel by linarith
  with r(1) rel show ?thesis by blast
qed

lemma axis:
  fixes lo hi :: real
  assumes "lo \<le> hi" "\<bar>lo\<bar> \<le> 2 ^ 40" "\<bar>hi\<bar> \<le> 2 ^ 40"
  shows "\<exists>c d. num_div (num_add (Finite lo) (Finite hi)) (Finite 2) = Finite c
           \<and> Math_max [fl (1 / 100), num_mul (num_sub (Finite hi) (Finite lo)) (Finite (3 / 2))]
               = Finite d
           \<and> \<bar>c - (lo + hi) / 2\<bar> \<le> (\<bar>(lo + hi) / 2\<bar> + 1) / 2 ^ 51
           \<and> 1 / 100 \<le> d
           \<and> (\<forall>v. lo \<le> v \<and> v \<le> hi \<longrightarrow> \<bar>v - c\<bar> \<le> d / 2)"
proof -
  have lo: "\<bar>lo\<bar> \<le> 1099511627776" and hi: "\<bar>hi\<bar> \<le> 1099511627776"
    using assms by simp_all
  have "\<bar>lo + hi\<bar> \<le> 4398046511104" using lo hi by linarith
  from fl_near [OF this] obtain s where s: "fl (lo + hi) = Finite s"
    "\<bar>s - (lo + hi)\<bar> \<le> 1 / 2000"
    "\<bar>s - (lo + hi)\<bar> \<le> \<bar>lo + hi\<bar> / 2 ^ 53 + 1 / 2 ^ 60" by blast
  have "\<bar>s / 2\<bar> \<le> 4398046511104" using s(2) lo hi by linarith
  from fl_near [OF this] obtain c where c: "fl (s / 2) = Finite c"
    "\<bar>c - s / 2\<bar> \<le> 1 / 2000"
    "\<bar>c - s / 2\<bar> \<le> \<bar>s / 2\<bar> / 2 ^ 53 + 1 / 2 ^ 60" by blast
  have "\<bar>hi - lo\<bar> \<le> 4398046511104" using lo hi by linarith
  from fl_near [OF this] obtain w where w: "fl (hi - lo) = Finite w"
    "\<bar>w - (hi - lo)\<bar> \<le> 1 / 2000" by blast
  have "\<bar>w * (3 / 2)\<bar> \<le> 4398046511104" using w(2) lo hi by linarith
  from fl_near [OF this] obtain m where m: "fl (w * (3 / 2)) = Finite m"
    "\<bar>m - w * (3 / 2)\<bar> \<le> 1 / 2000" by blast
  define d where "d = max (5764607523034235 / 2 ^ 59) m"
  have centre: "num_div (num_add (Finite lo) (Finite hi)) (Finite 2) = Finite c"
    by (simp add: s c)
  have span: "Math_max [fl (1 / 100), num_mul (num_sub (Finite hi) (Finite lo)) (Finite (3 / 2))]
      = Finite d"
    using m(1) by (simp add: Math_max_def fl_hundredth w d_def)
  define middle where "middle = (lo + hi) / 2"
  have sum: "lo + hi = 2 * middle" by (simp add: middle_def)
  have mid: "\<bar>c - middle\<bar> \<le> 3 / 4000"
    using s(2) c(2) unfolding sum by linarith
  have "(1::real) / 100 \<le> 5764607523034235 / 2 ^ 59" by simp
  then have least: "1 / 100 \<le> d"
    unfolding d_def by linarith
  define gap where "gap = hi - lo"
  have hi_gap: "hi = lo + gap" by (simp add: gap_def)
  have "m \<le> d" unfolding d_def by linarith
  moreover have "\<bar>w - gap\<bar> \<le> 1 / 2000" using w(2) by (simp add: gap_def)
  ultimately have wide: "gap + gap / 2 - 1 / 800 \<le> d"
    using m(2) by linarith
  have cover: "\<bar>v - c\<bar> \<le> d / 2" if "lo \<le> v \<and> v \<le> hi" for v
  proof (cases "gap \<le> 17 / 2000")
    case True
    with that mid least sum hi_gap show ?thesis by linarith
  next
    case False
    with that mid wide sum hi_gap show ?thesis by linarith
  qed
  have close: "\<bar>c - middle\<bar> \<le> (\<bar>middle\<bar> + 1) / 2 ^ 51"
  proof -
    define a where "a = \<bar>middle\<bar>"
    define h where "h = \<bar>s / 2\<bar>"
    have "\<bar>lo + hi\<bar> = 2 * a" unfolding sum a_def by simp
    with s(3) have s_rel: "\<bar>s - 2 * middle\<bar> \<le> a / 2 ^ 52 + 1 / 2 ^ 60"
      unfolding sum by simp
    have c_rel: "\<bar>c - s / 2\<bar> \<le> h / 2 ^ 53 + 1 / 2 ^ 60"
      using c(3) by (simp add: h_def)
    have a0: "0 \<le> a" by (simp add: a_def)
    have "\<bar>s / 2 - middle\<bar> \<le> a / 2 ^ 53 + 1 / 2 ^ 61"
      using s_rel by (simp add: abs_le_iff)
    moreover from this have "h \<le> a + a / 2 ^ 53 + 1 / 2 ^ 61"
      unfolding h_def a_def by linarith
    then have "h / 2 ^ 53 \<le> (a + a / 2 ^ 53 + 1 / 2 ^ 61) / 2 ^ 53"
      by (intro divide_right_mono) auto
    moreover have "(a + a / 2 ^ 53 + 1 / 2 ^ 61) / 2 ^ 53 + 1 / 2 ^ 60 + a / 2 ^ 53 + 1 / 2 ^ 61
        \<le> (a + 1) / 2 ^ 51"
      using a0 by (simp add: field_simps)
    ultimately show ?thesis
      using c_rel unfolding a_def by linarith
  qed
  then have "\<bar>c - (lo + hi) / 2\<bar> \<le> (\<bar>(lo + hi) / 2\<bar> + 1) / 2 ^ 51"
    by (simp add: middle_def)
  with centre span least cover show ?thesis by blast
qed


lemma finite_within_Finite:
  "finite_within bound v \<Longrightarrow> v = Finite (value_of v) \<and> \<bar>value_of v\<bar> \<le> bound"
  by (cases v) (simp_all add: finite_within_def value_of_def)

lemma finite_axis:
  assumes ne: "vs \<noteq> []" and fin: "\<forall>v \<in> set vs. finite_within (2 ^ 40) v"
  shows "\<exists>c d. num_div (num_add (Math_min vs) (Math_max vs)) (Finite 2) = Finite c
     \<and> Math_max [fl (1 / 100), num_mul (num_sub (Math_max vs) (Math_min vs)) (Finite (3 / 2))]
         = Finite d
     \<and> \<bar>c - (Min (value_of ` set vs) + Max (value_of ` set vs)) / 2\<bar>
         \<le> (\<bar>(Min (value_of ` set vs) + Max (value_of ` set vs)) / 2\<bar> + 1) / 2 ^ 51
     \<and> 1 / 100 \<le> d
     \<and> (\<forall>v \<in> set vs. \<bar>value_of v - c\<bar> \<le> d / 2)"
proof -
  define xs where "xs = map value_of vs"
  have "Finite (value_of v) = v" if "v \<in> set vs" for v
    using fin that finite_within_Finite [of "2 ^ 40" v] by simp
  then have "map (\<lambda>v. Finite (value_of v)) vs = vs"
    by (rule map_idI)
  then have vs: "vs = map Finite xs"
    by (simp add: xs_def comp_def)
  have xs_ne: "xs \<noteq> []" using ne by (simp add: xs_def)
  have img: "value_of ` set vs = set xs" by (simp add: xs_def)
  define lo where "lo = Min (set xs)"
  define hi where "hi = Max (set xs)"
  have mem: "lo \<in> set xs" "hi \<in> set xs"
    using xs_ne by (simp_all add: lo_def hi_def)
  have bounded: "\<bar>x\<bar> \<le> 2 ^ 40" if "x \<in> set xs" for x
    using that fin finite_within_Finite unfolding xs_def by auto
  have between: "lo \<le> x \<and> x \<le> hi" if "x \<in> set xs" for x
    using that by (simp add: lo_def hi_def)
  have least: "Math_min vs = Finite lo" and greatest: "Math_max vs = Finite hi"
    unfolding vs lo_def hi_def using xs_ne by (simp_all add: Math_min_Finite Math_max_Finite)
  from axis [of lo hi] between [OF mem(1)] bounded [OF mem(1)] bounded [OF mem(2)]
  obtain c d where cd:
    "num_div (num_add (Finite lo) (Finite hi)) (Finite 2) = Finite c"
    "Math_max [fl (1 / 100), num_mul (num_sub (Finite hi) (Finite lo)) (Finite (3 / 2))]
       = Finite d"
    "\<bar>c - (lo + hi) / 2\<bar> \<le> (\<bar>(lo + hi) / 2\<bar> + 1) / 2 ^ 51"
    "1 / 100 \<le> d"
    "\<forall>v. lo \<le> v \<and> v \<le> hi \<longrightarrow> \<bar>v - c\<bar> \<le> d / 2"
    by blast
  have "\<forall>v \<in> set vs. \<bar>value_of v - c\<bar> \<le> d / 2"
    using cd(5) between img by blast
  with cd(1-4) show ?thesis
    unfolding least greatest img lo_def [symmetric] hi_def [symmetric] by blast
qed

text \<open>
  C9 (as the code has it). For a list of coordinates that is not empty and whose
  latitudes and longitudes are finite numbers of a magnitude of at most \<open>2 ^ 40\<close>, the
  region is finite; its centre is the midpoint of the least and the greatest latitude and
  longitude up to the rounding of the two operations that compute it; both spans are at
  least 0.01; and every coordinate of the list lies within half a span of the centre on
  both axes.
\<close>

theorem regionOf_covers:
  assumes "coords \<noteq> []"
    and "\<forall>c \<in> set coords. finite_within (2 ^ 40) (map_latitude c)
                          \<and> finite_within (2 ^ 40) (map_longitude c)"
  shows "\<exists>la lo dla dlo.
       regionOf coords = \<lparr> region_latitude = Finite la, region_longitude = Finite lo,
                           latitudeDelta = Finite dla, longitudeDelta = Finite dlo \<rparr>
     \<and> \<bar>la - (Min (value_of ` map_latitude ` set coords)
                + Max (value_of ` map_latitude ` set coords)) / 2\<bar>
         \<le> (\<bar>(Min (value_of ` map_latitude ` set coords)
                + Max (value_of ` map_latitude ` set coords)) / 2\<bar> + 1) / 2 ^ 51
     \<and> \<bar>lo - (Min (value_of ` map_longitude ` set coords)
                + Max (value_of ` map_longitude ` set coords)) / 2\<bar>
         \<le> (\<bar>(Min (value_of ` map_longitude ` set coords)
                + Max (value_of ` map_longitude ` set coords)) / 2\<bar> + 1) / 2 ^ 51
     \<and> 1 / 100 \<le> dla \<and> 1 / 100 \<le> dlo
     \<and> (\<forall>c \<in> set coords. \<bar>value_of (map_latitude c) - la\<bar> \<le> dla / 2
                          \<and> \<bar>value_of (map_longitude c) - lo\<bar> \<le> dlo / 2)"
proof -
  have "map map_latitude coords \<noteq> []" "map map_longitude coords \<noteq> []"
    using assms(1) by simp_all
  moreover have "\<forall>v \<in> set (map map_latitude coords). finite_within (2 ^ 40) v"
    "\<forall>v \<in> set (map map_longitude coords). finite_within (2 ^ 40) v"
    using assms(2) by simp_all
  ultimately obtain la dla lo dlo where
    lat: "num_div (num_add (Math_min (map map_latitude coords))
            (Math_max (map map_latitude coords))) (Finite 2) = Finite la"
      "Math_max [fl (1 / 100), num_mul (num_sub (Math_max (map map_latitude coords))
            (Math_min (map map_latitude coords))) (Finite (3 / 2))] = Finite dla"
      "\<bar>la - (Min (value_of ` set (map map_latitude coords))
                + Max (value_of ` set (map map_latitude coords))) / 2\<bar>
         \<le> (\<bar>(Min (value_of ` set (map map_latitude coords))
                + Max (value_of ` set (map map_latitude coords))) / 2\<bar> + 1) / 2 ^ 51"
      "1 / 100 \<le> dla"
      "\<forall>v \<in> set (map map_latitude coords). \<bar>value_of v - la\<bar> \<le> dla / 2"
    and lng: "num_div (num_add (Math_min (map map_longitude coords))
            (Math_max (map map_longitude coords))) (Finite 2) = Finite lo"
      "Math_max [fl (1 / 100), num_mul (num_sub (Math_max (map map_longitude coords))
            (Math_min (map map_longitude coords))) (Finite (3 / 2))] = Finite dlo"
      "\<bar>lo - (Min (value_of ` set (map map_longitude coords))
                + Max (value_of ` set (map map_longitude coords))) / 2\<bar>
         \<le> (\<bar>(Min (value_of ` set (map map_longitude coords))
                + Max (value_of ` set (map map_longitude coords))) / 2\<bar> + 1) / 2 ^ 51"
      "1 / 100 \<le> dlo"
      "\<forall>v \<in> set (map map_longitude coords). \<bar>value_of v - lo\<bar> \<le> dlo / 2"
    using finite_axis [of "map map_latitude coords"] finite_axis [of "map map_longitude coords"]
    by blast
  have region: "regionOf coords = \<lparr> region_latitude = Finite la, region_longitude = Finite lo,
                           latitudeDelta = Finite dla, longitudeDelta = Finite dlo \<rparr>"
    by (simp add: regionOf_def Let_def lat(1,2) lng(1,2))
  have cover: "\<forall>c \<in> set coords. \<bar>value_of (map_latitude c) - la\<bar> \<le> dla / 2
                          \<and> \<bar>value_of (map_longitude c) - lo\<bar> \<le> dlo / 2"
    using lat(5) lng(5) by simp
  from lat(3) lng(3) have
    "\<bar>la - (Min (value_of ` map_latitude ` set coords)
                + Max (value_of ` map_latitude ` set coords)) / 2\<bar>
         \<le> (\<bar>(Min (value_of ` map_latitude ` set coords)
                + Max (value_of ` map_latitude ` set coords)) / 2\<bar> + 1) / 2 ^ 51"
    "\<bar>lo - (Min (value_of ` map_longitude ` set coords)
                + Max (value_of ` map_longitude ` set coords)) / 2\<bar>
         \<le> (\<bar>(Min (value_of ` map_longitude ` set coords)
                + Max (value_of ` map_longitude ` set coords)) / 2\<bar> + 1) / 2 ^ 51"
    by simp_all
  with region cover lat(4) lng(4) show ?thesis by blast
qed

theorem regionOf_covers_witness:
  "map mapCoordinates (allCoordinates initialLocationState) \<noteq> []
   \<and> finite_within (2 ^ 40)
         (map_latitude (mapCoordinates (collectionCenter initialLocationState)))
   \<and> finite_within (2 ^ 40)
         (map_longitude (mapCoordinates (collectionCenter initialLocationState)))
   \<and> finite_within (2 ^ 40) (map_latitude (mapCoordinates (hospital initialLocationState)))
   \<and> finite_within (2 ^ 40) (map_longitude (mapCoordinates (hospital initialLocationState)))
   \<and> (\<exists>la lo dla dlo.
         renderMap_region initialLocationState
           = \<lparr> region_latitude = Finite la, region_longitude = Finite lo,
               latitudeDelta = Finite dla, longitudeDelta = Finite dlo \<rparr>
         \<and> 1 / 100 \<le> dla \<and> 1 / 100 \<le> dlo
         \<and> (\<forall>c \<in> set (map mapCoordinates (allCoordinates initialLocationState)).
               \<bar>value_of (map_latitude c) - la\<bar> \<le> dla / 2
               \<and> \<bar>value_of (map_longitude c) - lo\<bar> \<le> dlo / 2))"
proof -
  have ne: "map mapCoordinates (allCoordinates initialLocationState) \<noteq> []"
    by (simp add: allCoordinates_def)
  have fin: "\<forall>c \<in> set (map mapCoordinates (allCoordinates initialLocationState)).
         finite_within (2 ^ 40) (map_latitude c) \<and> finite_within (2 ^ 40) (map_longitude c)"
    by (simp add: allCoordinates_def initialLocationState_def mapCoordinates_def
        finite_within_def)
  have each: "finite_within (2 ^ 40)
         (map_latitude (mapCoordinates (collectionCenter initialLocationState)))"
    "finite_within (2 ^ 40)
         (map_longitude (mapCoordinates (collectionCenter initialLocationState)))"
    "finite_within (2 ^ 40) (map_latitude (mapCoordinates (hospital initialLocationState)))"
    "finite_within (2 ^ 40) (map_longitude (mapCoordinates (hospital initialLocationState)))"
    by (simp_all add: initialLocationState_def mapCoordinates_def finite_within_def)
  from regionOf_covers [OF ne fin] ne each show ?thesis
    unfolding renderMap_region_def by blast
qed

text \<open>
  C9 as stated fails: for the single coordinate of latitude \<open>2 ^ 1023\<close> the sum of
  the least and the greatest latitude overflows, the centre is \<open>Infinity\<close> and not
  that latitude, and the span is the least one, so the region does not cover the point.
\<close>

theorem regionOf_overflow_counterexample:
  "regionOf [\<lparr> map_latitude = Finite (2 ^ 1023), map_longitude = Finite 0 \<rparr>]
   = \<lparr> region_latitude = PosInf, region_longitude = Finite 0,
       latitudeDelta = Finite (5764607523034235 / 2 ^ 59),
       longitudeDelta = Finite (5764607523034235 / 2 ^ 59) \<rparr>"
proof -
  have over: "fl (2 ^ 1023 + 2 ^ 1023) = PosInf"
    by (simp add: fl_def)
  have zero: "fl 0 = Finite 0"
    by (simp add: fl_def)
  from over zero show ?thesis
    by (simp add: regionOf_def Let_def Math_min_def Math_max_def fl_hundredth)
qed

end
